theory Spec2Isabelle
  imports Main "HOL-Library.Word"
begin

section \<open>The Hive RPC engine client\<close>

text \<open>
  A shallow embedding of \<^verbatim>\<open>simulators/ethereum/engine/client/hive_rpc/hive_rpc.go\<close>:
  the block-number encoding, the header and total-difficulty lookups, token minting, the
  engine API calls with their call memory, and the per-account nonce cache.

  Go values are modelled as follows. A pointer that may be \<^verbatim>\<open>nil\<close> is an
  \<open>option\<close>; \<^verbatim>\<open>*big.Int\<close> is \<open>int option\<close>; \<^verbatim>\<open>uint64\<close> is \<open>64 word\<close>
  (so \<^verbatim>\<open>++\<close> wraps); \<^verbatim>\<open>common.Hash\<close> and \<^verbatim>\<open>common.Address\<close> are the
  fixed-size words of 32 and 20 bytes; a Go result pair \<^verbatim>\<open>(v, err)\<close> is a pair whose
  second component is \<open>None\<close> for a \<^verbatim>\<open>nil\<close> error. A method with receiver
  \<^verbatim>\<open>ec\<close> takes the client and returns the client it leaves behind. Contexts and
  their deadlines are not modelled: a deadline that expires is one of the errors a remote
  call can return.
\<close>

subsection \<open>Basic types\<close>

type_synonym byte = "8 word"
type_synonym uint64 = "64 word"
type_synonym Hash = "256 word"
type_synonym Address = "160 word"
type_synonym PayloadID = "64 word"

text \<open>
  Error values. \<open>NotFound\<close> is the sentinel \<^verbatim>\<open>ethereum.NotFound\<close>; \<open>RPCError\<close> is
  whatever \<^verbatim>\<open>rpc.Client.CallContext\<close> reports (connection, deadline, server error);
  \<open>JSONError\<close> is a decoding error of \<^verbatim>\<open>encoding/json\<close>; \<open>SigningError\<close> is an error
  of the token library's \<^verbatim>\<open>SignedString\<close>.
\<close>

datatype error = NotFound | RPCError string | JSONError string | SigningError string

text \<open>
  A call either returns or panics (a \<^verbatim>\<open>nil\<close> pointer dereference is the only panic
  of this file).
\<close>

datatype 'a go = Return 'a | Panic

subsection \<open>Block-number encoding\<close>

text \<open>
  \<open>hexstr n\<close> is \<^verbatim>\<open>big.Int.Text(16)\<close> of a natural number: its hex digits, most
  significant first, in lower case. \<open>hexval\<close> reads such a digit string back.
\<close>

definition hexdigit :: "nat \<Rightarrow> char" where
  "hexdigit d = ''0123456789abcdef'' ! d"

fun hexstr :: "nat \<Rightarrow> string" where
  "hexstr n = (if n < 16 then [hexdigit n] else hexstr (n div 16) @ [hexdigit (n mod 16)])"

declare hexstr.simps [simp del]

definition digitval :: "char \<Rightarrow> nat" where
  "digitval c = (let k = (of_char c :: nat) in if 48 \<le> k \<and> k \<le> 57 then k - 48 else k - 87)"

definition hexval :: "string \<Rightarrow> nat" where
  "hexval ds = foldl (\<lambda>acc c. 16 * acc + digitval c) 0 ds"

text \<open>
  Modelled from the spec: \<^verbatim>\<open>hexutil.EncodeBig\<close> belongs to the go-ethereum library and is
  not part of this repository's sources. The spec describes its result as
  "a big-endian hex integer with no leading zero (minimal encoding), consistent with the
  wire convention of the target JSON-RPC surface", that is the digits after the prefix
  \<^verbatim>\<open>0x\<close>; zero is \<^verbatim>\<open>0x0\<close> and a negative value carries its sign in front.
\<close>

definition EncodeBig :: "int \<Rightarrow> string" where
  "EncodeBig bigint =
     (if bigint = 0 then ''0x0''
      else if bigint > 0 then ''0x'' @ hexstr (nat bigint)
      else ''-0x'' @ hexstr (nat (- bigint)))"

text \<open>The package variables \<^verbatim>\<open>Head\<close>, \<^verbatim>\<open>Pending\<close>, \<^verbatim>\<open>Finalized\<close>, \<^verbatim>\<open>Safe\<close>.\<close>

definition Head :: "int option" where "Head = None"
definition Pending :: int where "Pending = - 2"
definition Finalized :: int where "Finalized = - 3"
definition Safe :: int where "Safe = - 4"

definition toBlockNumArg :: "int option \<Rightarrow> string" where
  "toBlockNumArg number =
     (case number of
        None \<Rightarrow> ''latest''
      | Some n \<Rightarrow>
          if n = Pending then ''pending''
          else if n = Finalized then ''finalized''
          else if n = Safe then ''safe''
          else EncodeBig n)"

subsection \<open>Data model\<close>

text \<open>
  The payload types of the engine API (\<^verbatim>\<open>core/beacon\<close> of go-ethereum). The client
  only passes them through and remembers them.
\<close>

record ExecutableDataV1 =
  ParentHash :: Hash
  FeeRecipient :: Address
  StateRoot :: Hash
  ReceiptsRoot :: Hash
  LogsBloom :: "byte list"
  Random :: Hash
  Number :: uint64
  GasLimit :: uint64
  GasUsed :: uint64
  Timestamp :: uint64
  ExtraData :: "byte list"
  BaseFeePerGas :: "int option"
  BlockHash :: Hash
  Transactions :: "byte list list"

record PayloadAttributesV1 =
  Timestamp :: uint64
  Random :: Hash
  SuggestedFeeRecipient :: Address

record ForkchoiceStateV1 =
  HeadBlockHash :: Hash
  SafeBlockHash :: Hash
  FinalizedBlockHash :: Hash

record PayloadStatusV1 =
  Status :: string
  LatestValidHash :: "Hash option"
  ValidationError :: "string option"

record ForkChoiceResponse =
  PayloadStatus :: PayloadStatusV1
  PayloadID :: "PayloadID option"

record TransitionConfigurationV1 =
  TerminalTotalDifficulty :: "int option"
  TerminalBlockHash :: Hash
  TerminalBlockNumber :: uint64

text \<open>
  \<^verbatim>\<open>types.Header\<close>: the client reads the parent hash and the number; the remaining
  fields only enter the header's hash.
\<close>

record Header =
  ParentHash :: Hash
  Number :: "int option"
  otherFields :: "byte list"

record TD =
  TotalDifficulty :: "int option"

record TotalDifficultyHeader =
  Header :: Header
  TD :: TD

record AccountTransactionInfo =
  PreviousBlock :: Hash
  PreviousNonce :: uint64

text \<open>\<^verbatim>\<open>time.Time\<close>: seconds since the epoch and the nanoseconds within the second.\<close>

record Time =
  sec :: int
  nsec :: int

definition Unix :: "Time \<Rightarrow> int" where
  "Unix t = sec t"

text \<open>
  A parsed JSON value, as the node sends it in the result of a call. A key of an object
  is kept as \<^verbatim>\<open>encoding/json\<close> reads it; a string value is kept as the text between its
  quotes, which is what the decoders of \<^verbatim>\<open>hexutil\<close> are given.
\<close>

datatype json =
    JNull
  | JBool bool
  | JNumber int
  | JString string
  | JArray "json list"
  | JObject "(string \<times> json) list"

text \<open>\<^verbatim>\<open>jwt.Token\<close>: the signing method and the claims.\<close>

record Token =
  Method :: string
  Claims :: "(string \<times> int) list"

definition NewWithClaims :: "string \<Rightarrow> (string \<times> int) list \<Rightarrow> Token" where
  "NewWithClaims method claims = \<lparr>Method = method, Claims = claims\<rparr>"

text \<open>
  The remote calls this client issues. An \<^verbatim>\<open>rpc.Client\<close> is modelled by the
  \<^verbatim>\<open>Authorization\<close> header set on it and the calls sent through it so far.
\<close>

datatype rpc_call =
    eth_getBlockByNumber string bool
  | eth_getTransactionCount Address "int option"
  | engine_forkchoiceUpdatedV1 "ForkchoiceStateV1 option" "PayloadAttributesV1 option"
  | engine_getPayloadV1 "PayloadID option"
  | engine_newPayloadV1 "ExecutableDataV1 option"
  | engine_exchangeTransitionConfigurationV1 "TransitionConfigurationV1 option"

record rpc_Client =
  Authorization :: "string option"
  sent :: "(string option \<times> rpc_call) list"

record HiveRPCEngineClient =
  c :: rpc_Client
  cEth :: rpc_Client
  JWTSecretBytes :: "byte list"
  latestFcUStateSent :: "ForkchoiceStateV1 option"
  latestPAttrSent :: "PayloadAttributesV1 option"
  latestFcUResponse :: "ForkChoiceResponse option"
  latestPayloadSent :: "ExecutableDataV1 option"
  latestPayloadStatusReponse :: "PayloadStatusV1 option"
  accTxInfoMap :: "Address \<rightharpoonup> AccountTransactionInfo option"

subsection \<open>The environment\<close>

text \<open>
  Everything outside this file that a call depends on: the clock, the token library, the
  header hash and JSON decoders of go-ethereum, and the node behind the two endpoints.
  A node answer to \<^verbatim>\<open>eth_getBlockByNumber\<close> is either an error text (\<open>Inl\<close>: the
  transport failed or the server answered with an error) or the JSON result (\<open>Inr\<close>).
  For the other calls the answer is given as \<^verbatim>\<open>CallContext\<close> leaves it: the content
  of \<^verbatim>\<open>result\<close> and the error text, if any. The engine endpoint sees the
  \<^verbatim>\<open>Authorization\<close> header of the request.
\<close>

record Env =
  Now :: Time
  jwt_SignedString :: "Token \<Rightarrow> byte list \<Rightarrow> string \<times> string option"
  Header_Hash :: "Header \<Rightarrow> Hash"
  Header_UnmarshalJSON :: "json \<Rightarrow> Header \<Rightarrow> Header \<times> string option"
  hexutil_Big_UnmarshalJSON :: "json \<Rightarrow> int \<times> string option"
  node_eth_getBlockByNumber :: "string \<Rightarrow> bool \<Rightarrow> string + json"
  node_eth_getTransactionCount :: "Address \<Rightarrow> int option \<Rightarrow> uint64 \<times> string option"
  node_engine_forkchoiceUpdatedV1 ::
    "string option \<Rightarrow> ForkchoiceStateV1 option \<Rightarrow> PayloadAttributesV1 option
      \<Rightarrow> ForkChoiceResponse \<times> string option"
  node_engine_getPayloadV1 ::
    "string option \<Rightarrow> PayloadID option \<Rightarrow> ExecutableDataV1 \<times> string option"
  node_engine_newPayloadV1 ::
    "string option \<Rightarrow> ExecutableDataV1 option \<Rightarrow> PayloadStatusV1 \<times> string option"
  node_engine_exchangeTransitionConfigurationV1 ::
    "string option \<Rightarrow> TransitionConfigurationV1 option
      \<Rightarrow> TransitionConfigurationV1 \<times> string option"

text \<open>Zero values of the result types (\<^verbatim>\<open>var result T\<close>).\<close>

definition zero_Header :: Header where
  "zero_Header = \<lparr>ParentHash = 0, Number = None, otherFields = []\<rparr>"

definition zero_TotalDifficultyHeader :: TotalDifficultyHeader where
  "zero_TotalDifficultyHeader = \<lparr>Header = zero_Header, TD = \<lparr>TotalDifficulty = None\<rparr>\<rparr>"

definition zero_PayloadStatusV1 :: PayloadStatusV1 where
  "zero_PayloadStatusV1 = \<lparr>Status = [], LatestValidHash = None, ValidationError = None\<rparr>"

definition zero_ForkChoiceResponse :: ForkChoiceResponse where
  "zero_ForkChoiceResponse = \<lparr>PayloadStatus = zero_PayloadStatusV1, PayloadID = None\<rparr>"

definition zero_ExecutableDataV1 :: ExecutableDataV1 where
  "zero_ExecutableDataV1 =
     \<lparr>ExecutableDataV1.ParentHash = 0, FeeRecipient = 0, StateRoot = 0, ReceiptsRoot = 0,
      LogsBloom = [], ExecutableDataV1.Random = 0, ExecutableDataV1.Number = 0, GasLimit = 0,
      GasUsed = 0, ExecutableDataV1.Timestamp = 0, ExtraData = [], BaseFeePerGas = None,
      BlockHash = 0, Transactions = []\<rparr>"

definition zero_TransitionConfigurationV1 :: TransitionConfigurationV1 where
  "zero_TransitionConfigurationV1 =
     \<lparr>TerminalTotalDifficulty = None, TerminalBlockHash = 0, TerminalBlockNumber = 0\<rparr>"

text \<open>
  Sending a call through an \<^verbatim>\<open>rpc.Client\<close> records it with the
  \<^verbatim>\<open>Authorization\<close> header in force.
\<close>

definition send :: "rpc_Client \<Rightarrow> rpc_call \<Rightarrow> rpc_Client" where
  "send cl call = cl\<lparr>sent := sent cl @ [(Authorization cl, call)]\<rparr>"

text \<open>
  \<^verbatim>\<open>CallContext(ctx, &p, ...)\<close> for a pointer \<^verbatim>\<open>p\<close> that starts \<^verbatim>\<open>nil\<close>: an error
  answer leaves \<^verbatim>\<open>p\<close> alone; the JSON literal \<^verbatim>\<open>null\<close> sets it to \<^verbatim>\<open>nil\<close> without
  error; any other result is decoded into a freshly allocated value.
\<close>

definition CallContext_ptr ::
  "(json \<Rightarrow> 'a \<times> error option) \<Rightarrow> string + json \<Rightarrow> 'a option \<times> error option" where
  "CallContext_ptr unmarshal reply =
     (case reply of
        Inl e \<Rightarrow> (None, Some (RPCError e))
      | Inr JNull \<Rightarrow> (None, None)
      | Inr data \<Rightarrow> (let (v, err) = unmarshal data in (Some v, err)))"

subsection \<open>Header lookup\<close>

definition HeaderByNumber ::
  "Env \<Rightarrow> HiveRPCEngineClient \<Rightarrow> int option
    \<Rightarrow> (Header option \<times> error option) \<times> HiveRPCEngineClient" where
  "HeaderByNumber env ec number =
     (let (header, err) =
            CallContext_ptr
              (\<lambda>data. let (h, e) = Header_UnmarshalJSON env data zero_Header
                      in (h, map_option JSONError e))
              (node_eth_getBlockByNumber env (toBlockNumArg number) False);
          ec1 = ec\<lparr>cEth := send (cEth ec) (eth_getBlockByNumber (toBlockNumArg number) False)\<rparr>;
          err = (if err = None \<and> header = None then Some NotFound else err)
      in ((header, err), ec1))"

subsection \<open>Total difficulty\<close>

text \<open>
  \<^verbatim>\<open>encoding/json\<close> takes a key for the struct field tagged \<^verbatim>\<open>totalDifficulty\<close> when
  the two are equal or differ only in the case of letters. The tag has no letter \<^verbatim>\<open>k\<close>
  or \<^verbatim>\<open>s\<close>, so no character outside ASCII is folded onto it: the keys taken are those
  equal to the tag after ASCII letters are folded to upper case. \<open>foldName\<close> gives the
  folded bytes.
\<close>

definition foldName :: "string \<Rightarrow> nat list" where
  "foldName name =
     map (\<lambda>ch. let k = (of_char ch :: nat) in if 97 \<le> k \<and> k \<le> 122 then k - 32 else k) name"

text \<open>
  \<^verbatim>\<open>json.Unmarshal(data, &tdh.TD)\<close>: the members of the object are applied in order.
  A member with another key is skipped. A member for the field sets the pointer to
  \<^verbatim>\<open>nil\<close> when its value is \<^verbatim>\<open>null\<close>; any other value is handed to the decoder of
  \<^verbatim>\<open>hexutil.Big\<close>, on a freshly allocated number when the pointer is \<^verbatim>\<open>nil\<close>, and an
  error of that decoder ends the decoding. A later member for the field overwrites an
  earlier one. An object without such a member leaves the field as it was.
\<close>

fun Unmarshal_TD_members :: "Env \<Rightarrow> (string \<times> json) list \<Rightarrow> TD \<Rightarrow> TD \<times> error option" where
  "Unmarshal_TD_members env [] td = (td, None)"
| "Unmarshal_TD_members env ((key, v) # rest) td =
     (if foldName key = foldName ''totalDifficulty'' then
        (if v = JNull then Unmarshal_TD_members env rest (td\<lparr>TotalDifficulty := None\<rparr>)
         else
           (let (n, e) = hexutil_Big_UnmarshalJSON env v
            in case e of
                 Some msg \<Rightarrow>
                   (td\<lparr>TotalDifficulty :=
                         Some (case TotalDifficulty td of None \<Rightarrow> 0 | Some m \<Rightarrow> m)\<rparr>,
                    Some (JSONError msg))
               | None \<Rightarrow> Unmarshal_TD_members env rest (td\<lparr>TotalDifficulty := Some n\<rparr>)))
      else Unmarshal_TD_members env rest td)"

text \<open>The values of the members for the field, in the order of the object.\<close>

definition TD_values :: "(string \<times> json) list \<Rightarrow> json list" where
  "TD_values members =
     map snd (filter (\<lambda>(key, v). foldName key = foldName ''totalDifficulty'') members)"

definition Unmarshal_TD :: "Env \<Rightarrow> json \<Rightarrow> TD \<Rightarrow> TD \<times> error option" where
  "Unmarshal_TD env data td =
     (case data of
        JNull \<Rightarrow> (td, None)
      | JObject members \<Rightarrow> Unmarshal_TD_members env members td
      | _ \<Rightarrow> (td, Some (JSONError ''json: cannot unmarshal into Go value of type TD'')))"

definition UnmarshalJSON ::
  "Env \<Rightarrow> TotalDifficultyHeader \<Rightarrow> json \<Rightarrow> TotalDifficultyHeader \<times> error option" where
  "UnmarshalJSON env tdh data =
     (let (h, e) = Header_UnmarshalJSON env data (Header tdh);
          tdh1 = tdh\<lparr>Header := h\<rparr>
      in case e of
           Some msg \<Rightarrow> (tdh1, Some (JSONError msg))
         | None \<Rightarrow>
             (let (td, err) = Unmarshal_TD env data (TD tdh1);
                  tdh2 = tdh1\<lparr>TD := td\<rparr>
              in case err of
                   Some e2 \<Rightarrow> (tdh2, Some e2)
                 | None \<Rightarrow> (tdh2, None)))"

text \<open>
  \<^verbatim>\<open>td.TotalDifficulty.ToInt()\<close> reads a field of \<^verbatim>\<open>*td\<close>, so a \<^verbatim>\<open>nil\<close> \<^verbatim>\<open>td\<close>
  panics; \<^verbatim>\<open>ToInt\<close> itself is a pointer conversion and maps \<^verbatim>\<open>nil\<close> to \<^verbatim>\<open>nil\<close>.
\<close>

definition GetTotalDifficulty ::
  "Env \<Rightarrow> HiveRPCEngineClient \<Rightarrow> (int option \<times> error option) go \<times> HiveRPCEngineClient" where
  "GetTotalDifficulty env ec =
     (let (td, err) =
            CallContext_ptr (UnmarshalJSON env zero_TotalDifficultyHeader)
              (node_eth_getBlockByNumber env ''latest'' False);
          ec1 = ec\<lparr>cEth := send (cEth ec) (eth_getBlockByNumber ''latest'' False)\<rparr>
      in case err of
           None \<Rightarrow>
             (case td of
                None \<Rightarrow> (Panic, ec1)
              | Some tdh \<Rightarrow> (Return (TotalDifficulty (TD tdh), None), ec1))
         | Some e \<Rightarrow> (Return (None, Some e), ec1))"

subsection \<open>Tokens\<close>

definition GetNewToken :: "Env \<Rightarrow> byte list \<Rightarrow> Time \<Rightarrow> string \<times> error option" where
  "GetNewToken env jwtSecretBytes iat =
     (let newToken = NewWithClaims ''HS256'' [(''iat'', Unix iat)];
          (tokenString, err) = jwt_SignedString env newToken jwtSecretBytes
      in case err of
           Some e \<Rightarrow> ([], Some (SigningError e))
         | None \<Rightarrow> (tokenString, None))"

definition PrepareAuthCallToken ::
  "Env \<Rightarrow> HiveRPCEngineClient \<Rightarrow> byte list \<Rightarrow> Time \<Rightarrow> error option \<times> HiveRPCEngineClient" where
  "PrepareAuthCallToken env ec jwtSecretBytes iat =
     (let (newTokenString, err) = GetNewToken env jwtSecretBytes iat
      in case err of
           Some e \<Rightarrow> (Some e, ec)
         | None \<Rightarrow>
             (None, ec\<lparr>c := (c ec)\<lparr>Authorization := Some (''Bearer '' @ newTokenString)\<rparr>\<rparr>))"

text \<open>The result of \<^verbatim>\<open>PrepareAuthCallToken\<close> is dropped and \<^verbatim>\<open>nil\<close> is returned.\<close>

definition PrepareDefaultAuthCallToken ::
  "Env \<Rightarrow> HiveRPCEngineClient \<Rightarrow> error option \<times> HiveRPCEngineClient" where
  "PrepareDefaultAuthCallToken env ec =
     (let (dropped, ec1) = PrepareAuthCallToken env ec (JWTSecretBytes ec) (Now env)
      in (None, ec1))"

subsection \<open>Engine API calls\<close>

definition ForkchoiceUpdatedV1 ::
  "Env \<Rightarrow> HiveRPCEngineClient \<Rightarrow> ForkchoiceStateV1 option \<Rightarrow> PayloadAttributesV1 option
    \<Rightarrow> (ForkChoiceResponse \<times> error option) \<times> HiveRPCEngineClient" where
  "ForkchoiceUpdatedV1 env ec fcState pAttributes =
     (let (err, ec1) = PrepareDefaultAuthCallToken env ec
      in case err of
           Some e \<Rightarrow> ((zero_ForkChoiceResponse, Some e), ec1)
         | None \<Rightarrow>
             (let ec2 = ec1\<lparr>latestFcUStateSent := fcState\<rparr>;
                  ec3 = ec2\<lparr>latestPAttrSent := pAttributes\<rparr>;
                  (result, err) =
                    node_engine_forkchoiceUpdatedV1 env (Authorization (c ec3)) fcState pAttributes;
                  ec4 = ec3\<lparr>c := send (c ec3) (engine_forkchoiceUpdatedV1 fcState pAttributes)\<rparr>;
                  ec5 = ec4\<lparr>latestFcUResponse := Some result\<rparr>
              in ((result, map_option RPCError err), ec5)))"

definition GetPayloadV1 ::
  "Env \<Rightarrow> HiveRPCEngineClient \<Rightarrow> PayloadID option
    \<Rightarrow> (ExecutableDataV1 \<times> error option) \<times> HiveRPCEngineClient" where
  "GetPayloadV1 env ec payloadId =
     (let (err, ec1) = PrepareDefaultAuthCallToken env ec
      in case err of
           Some e \<Rightarrow> ((zero_ExecutableDataV1, Some e), ec1)
         | None \<Rightarrow>
             (let (result, err) = node_engine_getPayloadV1 env (Authorization (c ec1)) payloadId;
                  ec2 = ec1\<lparr>c := send (c ec1) (engine_getPayloadV1 payloadId)\<rparr>
              in ((result, map_option RPCError err), ec2)))"

definition NewPayloadV1 ::
  "Env \<Rightarrow> HiveRPCEngineClient \<Rightarrow> ExecutableDataV1 option
    \<Rightarrow> (PayloadStatusV1 \<times> error option) \<times> HiveRPCEngineClient" where
  "NewPayloadV1 env ec payload =
     (let (err, ec1) = PrepareDefaultAuthCallToken env ec
      in case err of
           Some e \<Rightarrow> ((zero_PayloadStatusV1, Some e), ec1)
         | None \<Rightarrow>
             (let ec2 = ec1\<lparr>latestPayloadSent := payload\<rparr>;
                  (result, err) = node_engine_newPayloadV1 env (Authorization (c ec2)) payload;
                  ec3 = ec2\<lparr>c := send (c ec2) (engine_newPayloadV1 payload)\<rparr>;
                  ec4 = ec3\<lparr>latestPayloadStatusReponse := Some result\<rparr>
              in ((result, map_option RPCError err), ec4)))"

definition ExchangeTransitionConfigurationV1 ::
  "Env \<Rightarrow> HiveRPCEngineClient \<Rightarrow> TransitionConfigurationV1 option
    \<Rightarrow> (TransitionConfigurationV1 \<times> error option) \<times> HiveRPCEngineClient" where
  "ExchangeTransitionConfigurationV1 env ec tConf =
     (let (result, err) =
            node_engine_exchangeTransitionConfigurationV1 env (Authorization (c ec)) tConf;
          ec1 = ec\<lparr>c := send (c ec) (engine_exchangeTransitionConfigurationV1 tConf)\<rparr>
      in ((result, map_option RPCError err), ec1))"

subsection \<open>Accessors of the call memory\<close>

definition LatestForkchoiceSent ::
  "HiveRPCEngineClient \<Rightarrow> ForkchoiceStateV1 option \<times> PayloadAttributesV1 option" where
  "LatestForkchoiceSent ec = (latestFcUStateSent ec, latestPAttrSent ec)"

definition LatestNewPayloadSent :: "HiveRPCEngineClient \<Rightarrow> ExecutableDataV1 option" where
  "LatestNewPayloadSent ec = latestPayloadSent ec"

definition LatestForkchoiceResponse :: "HiveRPCEngineClient \<Rightarrow> ForkChoiceResponse option" where
  "LatestForkchoiceResponse ec = latestFcUResponse ec"

definition LatestNewPayloadResponse :: "HiveRPCEngineClient \<Rightarrow> PayloadStatusV1 option" where
  "LatestNewPayloadResponse ec = latestPayloadStatusReponse ec"

subsection \<open>The nonce cache\<close>

text \<open>
  \<^verbatim>\<open>ethclient.Client.NonceAt\<close> sends \<^verbatim>\<open>eth_getTransactionCount\<close> through the client
  that \<^verbatim>\<open>cEth\<close> names.
\<close>

definition NonceAt ::
  "Env \<Rightarrow> HiveRPCEngineClient \<Rightarrow> Address \<Rightarrow> int option
    \<Rightarrow> (uint64 \<times> error option) \<times> HiveRPCEngineClient" where
  "NonceAt env ec account blockNumber =
     (let (nonce, err) = node_eth_getTransactionCount env account blockNumber;
          ec1 = ec\<lparr>cEth := send (cEth ec) (eth_getTransactionCount account blockNumber)\<rparr>
      in ((nonce, map_option RPCError err), ec1))"

text \<open>
  The map holds pointers. Every pointer stored is allocated by the fresh-entry branch
  below and is reachable through its own key only, so the update through
  \<^verbatim>\<open>accTxInfo\<close> is an update of the entry of \<^verbatim>\<open>account\<close>.
\<close>

definition GetNextAccountNonce ::
  "Env \<Rightarrow> HiveRPCEngineClient \<Rightarrow> Address
    \<Rightarrow> (uint64 \<times> error option) go \<times> HiveRPCEngineClient" where
  "GetNextAccountNonce env ec account =
     (let ((head, err), ec1) = HeaderByNumber env ec None
      in case err of
           Some e \<Rightarrow> (Return (0, Some e), ec1)
         | None \<Rightarrow>
             (case head of
                None \<Rightarrow> (Panic, ec1)
              | Some hdr \<Rightarrow>
                  (let refresh =
                         (let ((nonce, err), ec2) = NonceAt env ec1 account (Number hdr)
                          in case err of
                               Some e \<Rightarrow> (Return (0, Some e), ec2)
                             | None \<Rightarrow>
                                 (Return (nonce, None),
                                  ec2\<lparr>accTxInfoMap := (accTxInfoMap ec2)(account \<mapsto>
                                        Some \<lparr>PreviousBlock = Header_Hash env hdr,
                                              PreviousNonce = nonce\<rparr>)\<rparr>))
                   in case accTxInfoMap ec1 account of
                        Some (Some accTxInfo) \<Rightarrow>
                          if PreviousBlock accTxInfo = Header_Hash env hdr
                             \<or> PreviousBlock accTxInfo = ParentHash hdr
                          then
                            (let accTxInfo1 = accTxInfo\<lparr>PreviousBlock := Header_Hash env hdr\<rparr>;
                                 accTxInfo2 = accTxInfo1\<lparr>PreviousNonce := PreviousNonce accTxInfo1 + 1\<rparr>
                             in (Return (PreviousNonce accTxInfo2, None),
                                 ec1\<lparr>accTxInfoMap := (accTxInfoMap ec1)(account \<mapsto> Some accTxInfo2)\<rparr>))
                          else refresh
                      | _ \<Rightarrow> refresh)))"

subsection \<open>Example clients and environments\<close>

text \<open>
  Concrete inputs at which the theorems below are instantiated: a header of block 7 as
  a node sends it, a client that has not called anything yet, and a node that answers
  every call without error.

  The example decoders follow \<^verbatim>\<open>hexutil\<close> and the generated decoder of
  \<^verbatim>\<open>types.Header\<close>. A quantity is empty, or the prefix \<^verbatim>\<open>0x\<close> and hex digits with no
  leading zero, within its size; a fixed-size value is the prefix and two hex digits for
  each byte; a byte string is empty, or the prefix and an even number of hex digits. The
  header decoder rejects an object with a malformed value for one of its fields and an
  object in which a required field is missing or \<^verbatim>\<open>null\<close>; a later member overwrites an
  earlier one; keys are compared after folding ASCII letters. The example hash of a header
  and the example signer are arbitrary functions of their arguments.
\<close>

definition decodeNibble :: "char \<Rightarrow> nat option" where
  "decodeNibble ch =
     (let k = (of_char ch :: nat)
      in if 48 \<le> k \<and> k \<le> 57 then Some (k - 48)
         else if 65 \<le> k \<and> k \<le> 70 then Some (k - 55)
         else if 97 \<le> k \<and> k \<le> 102 then Some (k - 87)
         else None)"

fun decodeHex :: "string \<Rightarrow> nat \<Rightarrow> nat option" where
  "decodeHex [] acc = Some acc"
| "decodeHex (ch # rest) acc =
     (case decodeNibble ch of None \<Rightarrow> None | Some d \<Rightarrow> decodeHex rest (16 * acc + d))"

definition has0xPrefix :: "string \<Rightarrow> bool" where
  "has0xPrefix input = (take 2 input = ''0x'' \<or> take 2 input = ''0X'')"

definition decodeFixed :: "nat \<Rightarrow> json \<Rightarrow> nat option" where
  "decodeFixed nbytes v =
     (case v of
        JString input \<Rightarrow>
          if has0xPrefix input \<and> length (drop 2 input) = 2 * nbytes
          then decodeHex (drop 2 input) 0 else None
      | _ \<Rightarrow> None)"

definition decodeQuantity :: "nat \<Rightarrow> json \<Rightarrow> nat option" where
  "decodeQuantity digits v =
     (case v of
        JString input \<Rightarrow>
          if input = [] then Some 0
          else if \<not> has0xPrefix input then None
          else if drop 2 input = [] then None
          else if 1 < length (drop 2 input) \<and> hd (drop 2 input) = CHR ''0'' then None
          else if digits < length (drop 2 input) then None
          else decodeHex (drop 2 input) 0
      | _ \<Rightarrow> None)"

definition decodeBytes :: "json \<Rightarrow> nat option" where
  "decodeBytes v =
     (case v of
        JString input \<Rightarrow>
          if input = [] then Some 0
          else if has0xPrefix input \<and> even (length (drop 2 input))
          then decodeHex (drop 2 input) 0 else None
      | _ \<Rightarrow> None)"

text \<open>
  The fields of the header in JSON: the key, the decoder of the value, and whether the
  field is required.
\<close>

definition Header_fields :: "(string \<times> (json \<Rightarrow> nat option) \<times> bool) list" where
  "Header_fields =
     [(''parentHash'', decodeFixed 32, True),
      (''sha3Uncles'', decodeFixed 32, True),
      (''miner'', decodeFixed 20, True),
      (''stateRoot'', decodeFixed 32, True),
      (''transactionsRoot'', decodeFixed 32, True),
      (''receiptsRoot'', decodeFixed 32, True),
      (''logsBloom'', decodeFixed 256, True),
      (''difficulty'', decodeQuantity 64, True),
      (''number'', decodeQuantity 64, True),
      (''gasLimit'', decodeQuantity 16, True),
      (''gasUsed'', decodeQuantity 16, True),
      (''timestamp'', decodeQuantity 16, True),
      (''extraData'', decodeBytes, True),
      (''mixHash'', decodeFixed 32, False),
      (''nonce'', decodeFixed 8, False),
      (''baseFeePerGas'', decodeQuantity 64, False)]"

text \<open>The value a field is left with: that of the last member whose key is the field's.\<close>

definition fieldValue :: "string \<Rightarrow> (string \<times> json) list \<Rightarrow> json option" where
  "fieldValue name members =
     (case filter (\<lambda>(key, v). foldName key = foldName name) members of
        [] \<Rightarrow> None
      | m # ms \<Rightarrow> Some (snd (last (m # ms))))"

definition memberDecodes :: "string \<times> json \<Rightarrow> bool" where
  "memberDecodes member =
     list_all
       (\<lambda>(name, decode, required).
          foldName (fst member) = foldName name \<longrightarrow> snd member = JNull \<or> decode (snd member) \<noteq> None)
       Header_fields"

definition fieldPresent :: "(string \<times> json) list \<Rightarrow> string \<Rightarrow> bool" where
  "fieldPresent members name =
     (case fieldValue name members of None \<Rightarrow> False | Some v \<Rightarrow> v \<noteq> JNull)"

definition fieldNumber :: "(json \<Rightarrow> nat option) \<Rightarrow> string \<Rightarrow> (string \<times> json) list \<Rightarrow> nat" where
  "fieldNumber decode name members =
     (case fieldValue name members of
        None \<Rightarrow> 0
      | Some v \<Rightarrow> (case decode v of None \<Rightarrow> 0 | Some n \<Rightarrow> n))"

definition example_Header_UnmarshalJSON :: "json \<Rightarrow> Header \<Rightarrow> Header \<times> string option" where
  "example_Header_UnmarshalJSON data h =
     (case data of
        JObject members \<Rightarrow>
          if \<not> list_all memberDecodes members
          then (h, Some ''json: cannot unmarshal value into Go struct field of Header'')
          else if \<not> list_all (\<lambda>(name, decode, required). required \<longrightarrow> fieldPresent members name)
                          Header_fields
          then (h, Some ''missing required field for Header'')
          else (\<lparr>ParentHash = of_nat (fieldNumber (decodeFixed 32) ''parentHash'' members),
                 Number = Some (int (fieldNumber (decodeQuantity 64) ''number'' members)),
                 otherFields = []\<rparr>, None)
      | _ \<Rightarrow> (h, Some ''json: cannot unmarshal into Go value of type Header''))"

definition example_Big_UnmarshalJSON :: "json \<Rightarrow> int \<times> string option" where
  "example_Big_UnmarshalJSON v =
     (case decodeQuantity 64 v of
        Some n \<Rightarrow> (int n, None)
      | None \<Rightarrow> (0, Some ''json: cannot unmarshal into Go value of type *hexutil.Big''))"

definition example_Header :: Header where
  "example_Header = \<lparr>ParentHash = 0x66, Number = Some 7, otherFields = []\<rparr>"

definition example_members :: "(string \<times> json) list" where
  "example_members =
     [(''parentHash'',
         JString ''0x0000000000000000000000000000000000000000000000000000000000000066''),
      (''sha3Uncles'',
         JString ''0x1dcc4de8dec75d7aab85b567b6ccd41ad312451b948a7413f0a142fd40d49347''),
      (''miner'', JString ''0x0000000000000000000000000000000000000000''),
      (''stateRoot'',
         JString ''0x00000000000000000000000000000000000000000000000000000000000000a1''),
      (''transactionsRoot'',
         JString ''0x56e81f171bcc55a6ff8345e692c0f86e5b48e01b996cadc001622fb5e363b421''),
      (''receiptsRoot'',
         JString ''0x56e81f171bcc55a6ff8345e692c0f86e5b48e01b996cadc001622fb5e363b421''),
      (''logsBloom'', JString (''0x'' @ replicate 512 (CHR ''0''))),
      (''difficulty'', JString ''0x0''),
      (''number'', JString ''0x7''),
      (''gasLimit'', JString ''0x1c9c380''),
      (''gasUsed'', JString ''0x0''),
      (''timestamp'', JString ''0x62590080''),
      (''extraData'', JString ''0x''),
      (''mixHash'',
         JString ''0x0000000000000000000000000000000000000000000000000000000000000000''),
      (''nonce'', JString ''0x0000000000000000''),
      (''baseFeePerGas'', JString ''0x7'')]"

definition example_block :: json where
  "example_block = JObject example_members"

definition example_block_td :: json where
  "example_block_td = JObject (example_members @ [(''totalDifficulty'', JString ''0x400'')])"

definition example_block_td_caps :: json where
  "example_block_td_caps = JObject (example_members @ [(''TotalDifficulty'', JString ''0x400'')])"

definition example_ForkchoiceStateV1 :: ForkchoiceStateV1 where
  "example_ForkchoiceStateV1 =
     \<lparr>HeadBlockHash = 0x77, SafeBlockHash = 0x66, FinalizedBlockHash = 0x55\<rparr>"

definition example_ForkChoiceResponse :: ForkChoiceResponse where
  "example_ForkChoiceResponse =
     \<lparr>PayloadStatus = \<lparr>Status = ''VALID'', LatestValidHash = Some 0x77, ValidationError = None\<rparr>,
      PayloadID = None\<rparr>"

definition example_client :: HiveRPCEngineClient where
  "example_client =
     \<lparr>c = \<lparr>Authorization = None, sent = []\<rparr>,
      cEth = \<lparr>Authorization = None, sent = []\<rparr>,
      JWTSecretBytes = [1, 2, 3],
      latestFcUStateSent = None,
      latestPAttrSent = None,
      latestFcUResponse = None,
      latestPayloadSent = None,
      latestPayloadStatusReponse = None,
      accTxInfoMap = Map.empty\<rparr>"

definition example_env :: Env where
  "example_env =
     \<lparr>Now = \<lparr>sec = 1650000000, nsec = 5\<rparr>,
      jwt_SignedString =
        (\<lambda>token key. (Method token @ ''.'' @ concat (map (\<lambda>(k, v). k @ hexstr (nat v)) (Claims token))
                         @ ''.'' @ map (\<lambda>b. hexdigit (unat b mod 16)) key, None)),
      Header_Hash = (\<lambda>h. ParentHash h + 0x11),
      Header_UnmarshalJSON = example_Header_UnmarshalJSON,
      hexutil_Big_UnmarshalJSON = example_Big_UnmarshalJSON,
      node_eth_getBlockByNumber = (\<lambda>number full. Inr example_block),
      node_eth_getTransactionCount = (\<lambda>account number. (5, None)),
      node_engine_forkchoiceUpdatedV1 = (\<lambda>auth fcState pAttributes. (example_ForkChoiceResponse, None)),
      node_engine_getPayloadV1 = (\<lambda>auth payloadId. (zero_ExecutableDataV1, None)),
      node_engine_newPayloadV1 = (\<lambda>auth payload. (PayloadStatus example_ForkChoiceResponse, None)),
      node_engine_exchangeTransitionConfigurationV1 =
        (\<lambda>auth tConf. (zero_TransitionConfigurationV1, None))\<rparr>"

text \<open>
  A client whose cache holds nonce 41 for account 9, recorded at the parent of the
  example header; a node whose head lookup fails; a node whose nonce lookup fails; a node
  that has no block to return; a node whose block carries the total difficulty, under
  the key as tagged and under a capitalised key; and a node whose engine endpoint does
  not answer in time.
\<close>

definition example_client_cached :: HiveRPCEngineClient where
  "example_client_cached =
     example_client\<lparr>accTxInfoMap := [9 \<mapsto> Some \<lparr>PreviousBlock = 0x66, PreviousNonce = 41\<rparr>]\<rparr>"

definition example_env_head_down :: Env where
  "example_env_head_down =
     example_env\<lparr>node_eth_getBlockByNumber := (\<lambda>number full. Inl ''connection refused'')\<rparr>"

definition example_env_nonce_down :: Env where
  "example_env_nonce_down =
     example_env\<lparr>node_eth_getTransactionCount := (\<lambda>account number. (0, Some ''deadline exceeded''))\<rparr>"

definition example_env_no_block :: Env where
  "example_env_no_block = example_env\<lparr>node_eth_getBlockByNumber := (\<lambda>number full. Inr JNull)\<rparr>"

definition example_env_td :: Env where
  "example_env_td = example_env\<lparr>node_eth_getBlockByNumber := (\<lambda>number full. Inr example_block_td)\<rparr>"

definition example_env_td_caps :: Env where
  "example_env_td_caps =
     example_env\<lparr>node_eth_getBlockByNumber := (\<lambda>number full. Inr example_block_td_caps)\<rparr>"

definition example_env_engine_down :: Env where
  "example_env_engine_down =
     example_env\<lparr>node_engine_forkchoiceUpdatedV1 :=
                   (\<lambda>auth fcState pAttributes. (zero_ForkChoiceResponse, Some ''deadline exceeded'')),
                 node_engine_newPayloadV1 :=
                   (\<lambda>auth payload. (zero_PayloadStatusV1, Some ''deadline exceeded''))\<rparr>"

section \<open>Properties\<close>

subsection \<open>Block-number encoding\<close>

lemma hexdigit_all:
  "\<forall>d \<in> set [0..<16]. hexdigit d \<in> set ''0123456789abcdef'' \<and> digitval (hexdigit d) = d
       \<and> (hexdigit d = CHR ''0'' \<longleftrightarrow> d = 0)"
  by code_simp

lemma hexdigit_cases:
  assumes "d < 16"
  shows "hexdigit d \<in> set ''0123456789abcdef'' \<and> digitval (hexdigit d) = d
    \<and> (hexdigit d = CHR ''0'' \<longleftrightarrow> d = 0)"
proof -
  from assms have "d \<in> set [0..<16]" by simp
  with hexdigit_all show ?thesis by blast
qed

lemma hexstr_nonempty: "hexstr n \<noteq> []"
  by (subst hexstr.simps) simp

lemma hexstr_chars: "set (hexstr n) \<subseteq> set ''0123456789abcdef''"
proof (induction n rule: hexstr.induct)
  case (1 n)
  show ?case
  proof (cases "n < 16")
    case True
    then have "hexdigit n \<in> set ''0123456789abcdef''"
      using hexdigit_cases by blast
    with True show ?thesis by (subst hexstr.simps) simp
  next
    case False
    have "n mod 16 < 16" by simp
    then have "hexdigit (n mod 16) \<in> set ''0123456789abcdef''"
      using hexdigit_cases by blast
    with False "1.IH" show ?thesis by (subst hexstr.simps) simp
  qed
qed

lemma hexval_snoc: "hexval (ds @ [x]) = 16 * hexval ds + digitval x"
  by (simp add: hexval_def)

lemma hexval_hexstr: "hexval (hexstr n) = n"
proof (induction n rule: hexstr.induct)
  case (1 n)
  show ?case
  proof (cases "n < 16")
    case True
    then show ?thesis using hexdigit_cases [of n]
      by (subst hexstr.simps) (simp add: hexval_def)
  next
    case False
    have "digitval (hexdigit (n mod 16)) = n mod 16"
      using hexdigit_cases [of "n mod 16"] by simp
    with False "1.IH" show ?thesis
      by (subst hexstr.simps) (simp add: hexval_snoc)
  qed
qed

lemma hd_hexstr: "hd (hexstr n) = CHR ''0'' \<longleftrightarrow> n = 0"
proof (induction n rule: hexstr.induct)
  case (1 n)
  show ?case
  proof (cases "n < 16")
    case True
    then show ?thesis using hexdigit_cases [of n] by (subst hexstr.simps) simp
  next
    case False
    then have "n div 16 \<noteq> 0" by auto
    with False "1.IH" show ?thesis
      by (subst hexstr.simps) (simp add: hexstr_nonempty)
  qed
qed

lemma hexstr_0: "hexstr 0 = ''0''"
  by (subst hexstr.simps) (simp add: hexdigit_def)

lemma EncodeBig_shape:
  "EncodeBig n = (if n < 0 then ''-0x'' else ''0x'') @ hexstr (nat \<bar>n\<bar>)"
  by (simp add: EncodeBig_def hexstr_0)


text \<open>
  C5. The block-number encoding maps the absent number to \<^verbatim>\<open>latest\<close> and the three
  negative sentinels to \<^verbatim>\<open>pending\<close>, \<^verbatim>\<open>finalized\<close> and \<^verbatim>\<open>safe\<close>. Every
  other value is encoded as its sign, the prefix \<^verbatim>\<open>0x\<close> and the big-endian hex digits of its
  magnitude, which are never empty, have no leading zero (only zero itself starts with
  the digit 0) and read back as the magnitude. No non-negative block height is encoded as
  one of the four sentinel strings.
\<close>

theorem toBlockNumArg_encoding:
  "toBlockNumArg Head = ''latest''
   \<and> toBlockNumArg (Some Pending) = ''pending''
   \<and> toBlockNumArg (Some Finalized) = ''finalized''
   \<and> toBlockNumArg (Some Safe) = ''safe''
   \<and> (n \<noteq> Pending \<and> n \<noteq> Finalized \<and> n \<noteq> Safe \<longrightarrow>
        toBlockNumArg (Some n) = (if n < 0 then ''-0x'' else ''0x'') @ hexstr (nat \<bar>n\<bar>)
        \<and> hexstr (nat \<bar>n\<bar>) \<noteq> []
        \<and> set (hexstr (nat \<bar>n\<bar>)) \<subseteq> set ''0123456789abcdef''
        \<and> (hd (hexstr (nat \<bar>n\<bar>)) = CHR ''0'' \<longrightarrow> hexstr (nat \<bar>n\<bar>) = ''0'')
        \<and> int (hexval (hexstr (nat \<bar>n\<bar>))) = \<bar>n\<bar>)
   \<and> (0 \<le> n \<longrightarrow> toBlockNumArg (Some n) \<notin> {''latest'', ''pending'', ''finalized'', ''safe''})"
proof -
  have sentinels: "toBlockNumArg Head = ''latest''" "toBlockNumArg (Some Pending) = ''pending''"
    "toBlockNumArg (Some Finalized) = ''finalized''" "toBlockNumArg (Some Safe) = ''safe''"
    by (simp_all add: toBlockNumArg_def Head_def Pending_def Finalized_def Safe_def)
  have other: "toBlockNumArg (Some n) = (if n < 0 then ''-0x'' else ''0x'') @ hexstr (nat \<bar>n\<bar>)"
    if "n \<noteq> Pending \<and> n \<noteq> Finalized \<and> n \<noteq> Safe"
    using that by (simp add: toBlockNumArg_def EncodeBig_shape)
  have lead: "hexstr (nat \<bar>n\<bar>) = ''0''" if "hd (hexstr (nat \<bar>n\<bar>)) = CHR ''0''"
    using that by (simp add: hd_hexstr hexstr_0)
  have nonneg: "toBlockNumArg (Some n) \<notin> {''latest'', ''pending'', ''finalized'', ''safe''}"
    if "0 \<le> n"
  proof -
    from that have "n \<noteq> Pending \<and> n \<noteq> Finalized \<and> n \<noteq> Safe"
      by (simp add: Pending_def Finalized_def Safe_def)
    then have "toBlockNumArg (Some n) = ''0x'' @ hexstr (nat \<bar>n\<bar>)"
      using that other by simp
    then show ?thesis by simp
  qed
  show ?thesis
    using sentinels other lead nonneg hexstr_nonempty hexstr_chars hexval_hexstr
    by simp
qed

text \<open>Block 255 is encoded as \<^verbatim>\<open>0xff\<close>, and the value \<open>-1\<close> as \<^verbatim>\<open>-0x1\<close>.\<close>

theorem toBlockNumArg_encoding_witness:
  "(255::int) \<noteq> Pending \<and> (255::int) \<noteq> Finalized \<and> (255::int) \<noteq> Safe \<and> (0::int) \<le> 255
   \<and> toBlockNumArg (Some 255) = ''0xff''
   \<and> hexval ''ff'' = 255
   \<and> toBlockNumArg (Some 255) \<notin> {''latest'', ''pending'', ''finalized'', ''safe''}
   \<and> (- 1::int) \<noteq> Pending \<and> (- 1::int) \<noteq> Finalized \<and> (- 1::int) \<noteq> Safe
   \<and> toBlockNumArg (Some (- 1)) = ''-0x1''"
proof -
  have h: "hexstr 255 = ''ff''" "hexstr (Suc 0) = ''1''" by code_simp+
  show ?thesis
    using toBlockNumArg_encoding [of 255] toBlockNumArg_encoding [of "- 1"]
    by (simp add: h Pending_def Finalized_def Safe_def)
qed

subsection \<open>Helper facts\<close>

lemma CallContext_ptr_Inl: "CallContext_ptr u (Inl msg) = (None, Some (RPCError msg))"
  by (simp add: CallContext_ptr_def)

lemma CallContext_ptr_null: "CallContext_ptr u (Inr JNull) = (None, None)"
  by (simp add: CallContext_ptr_def)

lemma CallContext_ptr_data:
  "data \<noteq> JNull \<Longrightarrow> CallContext_ptr u (Inr data) = (Some (fst (u data)), snd (u data))"
  by (cases data) (simp_all add: CallContext_ptr_def split: prod.splits)

lemma CallContext_ptr_nil: "CallContext_ptr u reply = (None, None) \<Longrightarrow> reply = Inr JNull"
  by (auto simp: CallContext_ptr_def split: sum.splits json.splits prod.splits)

lemma HeaderByNumber_client:
  "snd (HeaderByNumber env ec number) =
     ec\<lparr>cEth := send (cEth ec) (eth_getBlockByNumber (toBlockNumArg number) False)\<rparr>"
  by (simp add: HeaderByNumber_def Let_def split: prod.splits)

lemma HeaderByNumber_result:
  "fst (HeaderByNumber env ec number) =
     (case CallContext_ptr
             (\<lambda>data. let (h, e) = Header_UnmarshalJSON env data zero_Header
                     in (h, map_option JSONError e))
             (node_eth_getBlockByNumber env (toBlockNumArg number) False) of
        (None, None) \<Rightarrow> (None, Some NotFound)
      | (header, err) \<Rightarrow> (header, err))"
  by (simp add: HeaderByNumber_def Let_def split: prod.splits option.splits)

lemma HeaderByNumber_nonnil:
  "fst (HeaderByNumber env ec number) = (header, None) \<Longrightarrow> header \<noteq> None"
  by (auto simp: HeaderByNumber_result split: prod.splits option.splits)

lemma PrepareDefaultAuthCallToken_nil: "fst (PrepareDefaultAuthCallToken env ec) = None"
  by (simp add: PrepareDefaultAuthCallToken_def split: prod.splits)


lemma GetNextAccountNonce_head_error:
  assumes "fst (HeaderByNumber env ec None) = (head, Some e)"
  shows "GetNextAccountNonce env ec account = (Return (0, Some e), snd (HeaderByNumber env ec None))"
  using assms by (auto simp: GetNextAccountNonce_def split: prod.splits)

lemma AccountTransactionInfo_overwrite:
  "(info :: AccountTransactionInfo)\<lparr>PreviousBlock := b, PreviousNonce := n\<rparr>
     = \<lparr>PreviousBlock = b, PreviousNonce = n\<rparr>"
  by (cases info) simp

lemma GetNextAccountNonce_hit:
  assumes "fst (HeaderByNumber env ec None) = (Some hdr, None)"
    and "accTxInfoMap ec account = Some (Some info)"
    and "PreviousBlock info = Header_Hash env hdr \<or> PreviousBlock info = ParentHash hdr"
  shows "GetNextAccountNonce env ec account =
     (Return (PreviousNonce info + 1, None),
      ec\<lparr>cEth := send (cEth ec) (eth_getBlockByNumber ''latest'' False),
         accTxInfoMap := (accTxInfoMap ec)(account \<mapsto>
           Some \<lparr>PreviousBlock = Header_Hash env hdr, PreviousNonce = PreviousNonce info + 1\<rparr>)\<rparr>)"
proof -
  obtain r ec1 where h: "HeaderByNumber env ec None = (r, ec1)" by (metis surj_pair)
  with assms(1) have r: "r = (Some hdr, None)" by simp
  from h HeaderByNumber_client [of env ec None]
  have ec1: "ec1 = ec\<lparr>cEth := send (cEth ec) (eth_getBlockByNumber ''latest'' False)\<rparr>"
    by (simp add: toBlockNumArg_def)
  show ?thesis
    using assms(2,3)
    by (auto simp: GetNextAccountNonce_def h r ec1 Let_def AccountTransactionInfo_overwrite)
qed

lemma GetNextAccountNonce_miss:
  assumes "fst (HeaderByNumber env ec None) = (Some hdr, None)"
    and "\<not> (\<exists>i. accTxInfoMap ec account = Some (Some i)
              \<and> (PreviousBlock i = Header_Hash env hdr \<or> PreviousBlock i = ParentHash hdr))"
  shows "GetNextAccountNonce env ec account =
     (case node_eth_getTransactionCount env account (Number hdr) of
        (nonce, None) \<Rightarrow>
          (Return (nonce, None),
           ec\<lparr>cEth := send (send (cEth ec) (eth_getBlockByNumber ''latest'' False))
                         (eth_getTransactionCount account (Number hdr)),
              accTxInfoMap := (accTxInfoMap ec)(account \<mapsto>
                Some \<lparr>PreviousBlock = Header_Hash env hdr, PreviousNonce = nonce\<rparr>)\<rparr>)
      | (nonce, Some msg) \<Rightarrow>
          (Return (0, Some (RPCError msg)),
           ec\<lparr>cEth := send (send (cEth ec) (eth_getBlockByNumber ''latest'' False))
                         (eth_getTransactionCount account (Number hdr))\<rparr>))"
proof -
  obtain r ec1 where h: "HeaderByNumber env ec None = (r, ec1)" by (metis surj_pair)
  with assms(1) have r: "r = (Some hdr, None)" by simp
  from h HeaderByNumber_client [of env ec None]
  have ec1: "ec1 = ec\<lparr>cEth := send (cEth ec) (eth_getBlockByNumber ''latest'' False)\<rparr>"
    by (simp add: toBlockNumArg_def)
  show ?thesis
    using assms(2)
    by (auto simp: GetNextAccountNonce_def h r ec1 Let_def NonceAt_def
        split: prod.splits option.splits)
qed

lemma GetNextAccountNonce_no_panic: "fst (GetNextAccountNonce env ec account) \<noteq> Panic"
proof -
  obtain head err ec1 where h: "HeaderByNumber env ec None = ((head, err), ec1)"
    by (metis prod.exhaust)
  show ?thesis
  proof (cases err)
    case (Some e)
    with h show ?thesis by (simp add: GetNextAccountNonce_def)
  next
    case None
    with h HeaderByNumber_nonnil [of env ec None head] obtain hdr where "head = Some hdr"
      by auto
    with h None show ?thesis
      by (auto simp: GetNextAccountNonce_def Let_def split: prod.splits option.splits)
  qed
qed


lemma NonceAt_client:
  "snd (NonceAt env ec account number) =
     ec\<lparr>cEth := send (cEth ec) (eth_getTransactionCount account number)\<rparr>"
  by (simp add: NonceAt_def split: prod.splits)

lemma NonceAt_result:
  "fst (NonceAt env ec account number) =
     (fst (node_eth_getTransactionCount env account number),
      map_option RPCError (snd (node_eth_getTransactionCount env account number)))"
  by (simp add: NonceAt_def split: prod.splits)

lemma PrepareDefaultAuthCallToken_memory:
  "latestFcUStateSent (snd (PrepareDefaultAuthCallToken env ec)) = latestFcUStateSent ec"
  "latestPAttrSent (snd (PrepareDefaultAuthCallToken env ec)) = latestPAttrSent ec"
  "latestFcUResponse (snd (PrepareDefaultAuthCallToken env ec)) = latestFcUResponse ec"
  "latestPayloadSent (snd (PrepareDefaultAuthCallToken env ec)) = latestPayloadSent ec"
  "latestPayloadStatusReponse (snd (PrepareDefaultAuthCallToken env ec)) = latestPayloadStatusReponse ec"
  by (simp_all add: PrepareDefaultAuthCallToken_def PrepareAuthCallToken_def
      split: prod.splits option.splits)

lemma PrepareDefaultAuthCallToken_transport:
  "sent (c (snd (PrepareDefaultAuthCallToken env ec))) = sent (c ec)"
  "cEth (snd (PrepareDefaultAuthCallToken env ec)) = cEth ec"
  "accTxInfoMap (snd (PrepareDefaultAuthCallToken env ec)) = accTxInfoMap ec"
  by (simp_all add: PrepareDefaultAuthCallToken_def PrepareAuthCallToken_def
      split: prod.splits option.splits)

lemma ForkchoiceUpdatedV1_unfold:
  "ForkchoiceUpdatedV1 env ec fcState pAttributes =
     (let ec1 = snd (PrepareDefaultAuthCallToken env ec);
          r = node_engine_forkchoiceUpdatedV1 env (Authorization (c ec1)) fcState pAttributes
      in ((fst r, map_option RPCError (snd r)),
          ec1\<lparr>latestFcUStateSent := fcState, latestPAttrSent := pAttributes,
              c := send (c ec1) (engine_forkchoiceUpdatedV1 fcState pAttributes),
              latestFcUResponse := Some (fst r)\<rparr>))"
  using PrepareDefaultAuthCallToken_nil [of env ec]
  by (cases "PrepareDefaultAuthCallToken env ec")
     (simp add: ForkchoiceUpdatedV1_def Let_def split: prod.splits)

lemma NewPayloadV1_unfold:
  "NewPayloadV1 env ec payload =
     (let ec1 = snd (PrepareDefaultAuthCallToken env ec);
          r = node_engine_newPayloadV1 env (Authorization (c ec1)) payload
      in ((fst r, map_option RPCError (snd r)),
          ec1\<lparr>latestPayloadSent := payload,
              c := send (c ec1) (engine_newPayloadV1 payload),
              latestPayloadStatusReponse := Some (fst r)\<rparr>))"
  using PrepareDefaultAuthCallToken_nil [of env ec]
  by (cases "PrepareDefaultAuthCallToken env ec")
     (simp add: NewPayloadV1_def Let_def split: prod.splits)

lemma GetPayloadV1_unfold:
  "GetPayloadV1 env ec payloadId =
     (let ec1 = snd (PrepareDefaultAuthCallToken env ec);
          r = node_engine_getPayloadV1 env (Authorization (c ec1)) payloadId
      in ((fst r, map_option RPCError (snd r)),
          ec1\<lparr>c := send (c ec1) (engine_getPayloadV1 payloadId)\<rparr>))"
  using PrepareDefaultAuthCallToken_nil [of env ec]
  by (cases "PrepareDefaultAuthCallToken env ec")
     (simp add: GetPayloadV1_def Let_def split: prod.splits)

lemma TD_values_simps:
  "TD_values [] = []"
  "TD_values ((key, v) # rest) =
     (if foldName key = foldName ''totalDifficulty'' then v # TD_values rest else TD_values rest)"
  by (simp_all add: TD_values_def)

lemma TD_same: "(td :: TD)\<lparr>TotalDifficulty := TotalDifficulty td\<rparr> = td"
  by (cases td) simp

lemma Unmarshal_TD_members_result:
  assumes "\<forall>v \<in> set (TD_values members). v = JNull \<or> snd (hexutil_Big_UnmarshalJSON env v) = None"
  shows "Unmarshal_TD_members env members td =
     (td\<lparr>TotalDifficulty :=
          (case TD_values members of
             [] \<Rightarrow> TotalDifficulty td
           | v # vs \<Rightarrow>
               if last (v # vs) = JNull then None
               else Some (fst (hexutil_Big_UnmarshalJSON env (last (v # vs)))))\<rparr>, None)"
  using assms
proof (induction members arbitrary: td)
  case Nil
  then show ?case by (simp add: TD_values_simps TD_same)
next
  case (Cons m members)
  obtain key v where m: "m = (key, v)" by (cases m)
  show ?case
  proof (cases "foldName key = foldName ''totalDifficulty''")
    case False
    with Cons m show ?thesis by (simp add: TD_values_simps)
  next
    case True
    with Cons.prems m have ok: "v = JNull \<or> snd (hexutil_Big_UnmarshalJSON env v) = None"
      and rest: "\<forall>v \<in> set (TD_values members). v = JNull \<or> snd (hexutil_Big_UnmarshalJSON env v) = None"
      by (simp_all add: TD_values_simps)
    show ?thesis
    proof (cases "v = JNull")
      case isnull: True
      from Cons.IH [OF rest, of "td\<lparr>TotalDifficulty := None\<rparr>"] True m isnull
      show ?thesis by (cases "TD_values members") (simp_all add: TD_values_simps)
    next
      case nonnull: False
      with ok obtain n where dec: "hexutil_Big_UnmarshalJSON env v = (n, None)"
        by (cases "hexutil_Big_UnmarshalJSON env v") auto
      from Cons.IH [OF rest, of "td\<lparr>TotalDifficulty := Some n\<rparr>"] True m nonnull dec
      show ?thesis by (cases "TD_values members") (simp_all add: TD_values_simps)
    qed
  qed
qed

lemma GetTotalDifficulty_decoded:
  assumes "node_eth_getBlockByNumber env ''latest'' False = Inr (JObject members)"
    and "Header_UnmarshalJSON env (JObject members) zero_Header = (h, None)"
  shows "fst (GetTotalDifficulty env ec) =
     (case Unmarshal_TD_members env members \<lparr>TotalDifficulty = None\<rparr> of
        (td, None) \<Rightarrow> Return (TotalDifficulty td, None)
      | (td, Some e) \<Rightarrow> Return (None, Some e))"
  using assms
  by (simp add: GetTotalDifficulty_def CallContext_ptr_def UnmarshalJSON_def Unmarshal_TD_def
      zero_TotalDifficultyHeader_def Let_def split: option.splits prod.splits)

lemma Unmarshal_TD_members_absent:
  assumes "TD_values members = []"
  shows "Unmarshal_TD_members env members \<lparr>TotalDifficulty = None\<rparr>
      = (\<lparr>TotalDifficulty = None\<rparr>, None)"
  by (subst Unmarshal_TD_members_result) (simp_all add: assms)

lemma Unmarshal_TD_members_last:
  assumes ok: "\<forall>v \<in> set (TD_values members).
      v = JNull \<or> snd (hexutil_Big_UnmarshalJSON env v) = None"
    and nonempty: "TD_values members \<noteq> []"
    and nonnull: "last (TD_values members) \<noteq> JNull"
    and dec: "hexutil_Big_UnmarshalJSON env (last (TD_values members)) = (n, None)"
  shows "Unmarshal_TD_members env members \<lparr>TotalDifficulty = None\<rparr>
      = (\<lparr>TotalDifficulty = Some n\<rparr>, None)"
proof -
  from nonempty obtain v vs where vs: "TD_values members = v # vs"
    by (cases "TD_values members") auto
  from nonnull dec have l: "last (v # vs) \<noteq> JNull"
    and d: "fst (hexutil_Big_UnmarshalJSON env (last (v # vs))) = n"
    by (simp_all add: vs del: last.simps)
  have "(case TD_values members of
           [] \<Rightarrow> TotalDifficulty \<lparr>TotalDifficulty = None\<rparr>
         | v # vs \<Rightarrow>
             if last (v # vs) = JNull then None
             else Some (fst (hexutil_Big_UnmarshalJSON env (last (v # vs))))) = Some n"
    by (simp only: vs list.case l d if_False)
  with Unmarshal_TD_members_result [OF ok, of "\<lparr>TotalDifficulty = None\<rparr>"]
  show ?thesis by simp
qed

subsection \<open>Facts about the examples\<close>

lemma decodeHex_zeros: "decodeHex (replicate n (CHR ''0'')) acc = Some (16 ^ n * acc)"
  by (induction n arbitrary: acc) (simp_all add: decodeNibble_def)

lemmas example_decoder_defs =
  example_Header_UnmarshalJSON_def example_members_def example_Header_def memberDecodes_def
  fieldPresent_def fieldNumber_def fieldValue_def Header_fields_def foldName_def
  decodeFixed_def decodeQuantity_def decodeBytes_def has0xPrefix_def decodeNibble_def
  decodeHex_zeros

lemma example_decode:
  "example_Header_UnmarshalJSON example_block h = (example_Header, None)"
  by (simp add: example_block_def example_decoder_defs)

lemma example_decode_td:
  "example_Header_UnmarshalJSON example_block_td h = (example_Header, None)"
  by (simp add: example_block_td_def example_decoder_defs)

lemma example_decode_td_caps:
  "example_Header_UnmarshalJSON example_block_td_caps h = (example_Header, None)"
  by (simp add: example_block_td_caps_def example_decoder_defs)

lemma example_TD_values:
  "TD_values example_members = []"
  "TD_values (example_members @ [(''totalDifficulty'', JString ''0x400'')]) = [JString ''0x400'']"
  "TD_values (example_members @ [(''TotalDifficulty'', JString ''0x400'')]) = [JString ''0x400'']"
  by (simp_all add: TD_values_def example_members_def foldName_def)

lemma example_big: "example_Big_UnmarshalJSON (JString ''0x400'') = (1024, None)"
  by (simp add: example_Big_UnmarshalJSON_def decodeQuantity_def has0xPrefix_def decodeNibble_def)

lemma example_block_not_null: "example_block \<noteq> JNull"
  by (simp add: example_block_def)

lemma example_env_decode:
  "Header_UnmarshalJSON example_env example_block h = (example_Header, None)"
  by (simp add: example_env_def example_decode)

lemma example_env_node:
  "node_eth_getBlockByNumber example_env s b = Inr example_block"
  "node_eth_getTransactionCount example_env a n = (5, None)"
  "Header_Hash example_env example_Header = 0x77"
  by (simp_all add: example_env_def example_Header_def)

lemma example_head:
  "fst (HeaderByNumber example_env ec None) = (Some example_Header, None)"
  by (simp add: HeaderByNumber_result example_env_node(1)
      CallContext_ptr_data [OF example_block_not_null] example_env_decode)

lemma example_head_nonce_down:
  "fst (HeaderByNumber example_env_nonce_down ec None) = (Some example_Header, None)"
  by (simp add: HeaderByNumber_result example_env_nonce_down_def example_env_node(1)
      CallContext_ptr_data [OF example_block_not_null] example_env_decode)

lemma example_head_down:
  "fst (HeaderByNumber example_env_head_down ec None) = (None, Some (RPCError ''connection refused''))"
  by (simp add: HeaderByNumber_result example_env_head_down_def CallContext_ptr_Inl)

lemma example_hexstr: "hexstr 1650000000 = ''62590080''"
  by (simp add: hexstr.simps hexdigit_def)

lemma example_token:
  "jwt_SignedString example_env \<lparr>Method = ''HS256'', Claims = [(''iat'', 1650000000)]\<rparr> [1, 2, 3]
      = (''HS256.iat62590080.123'', None)"
  by (simp add: example_env_def example_hexstr hexdigit_def)

lemma example_auth:
  "Authorization (c (snd (PrepareDefaultAuthCallToken example_env_engine_down example_client)))
     = Some ''Bearer HS256.iat62590080.123''"
proof -
  have "jwt_SignedString example_env_engine_down = jwt_SignedString example_env"
    "Now example_env_engine_down = \<lparr>sec = 1650000000, nsec = 5\<rparr>"
    by (simp_all add: example_env_engine_down_def example_env_def)
  then show ?thesis
    by (simp add: PrepareDefaultAuthCallToken_def PrepareAuthCallToken_def GetNewToken_def
        NewWithClaims_def Unix_def example_token example_client_def)
qed

subsection \<open>Header lookup\<close>

text \<open>
  C7. When the node answers the header lookup with the empty result (the JSON literal
  \<^verbatim>\<open>null\<close>, no error), the lookup returns no header and the error \<open>NotFound\<close>.
  When the call itself fails, the lookup returns that error, which is a
  different error value from \<open>NotFound\<close>.
\<close>

theorem HeaderByNumber_not_found:
  "(node_eth_getBlockByNumber env (toBlockNumArg number) False = Inr JNull \<longrightarrow>
      fst (HeaderByNumber env ec number) = (None, Some NotFound))
   \<and> (node_eth_getBlockByNumber env (toBlockNumArg number) False = Inl msg \<longrightarrow>
      fst (HeaderByNumber env ec number) = (None, Some (RPCError msg))
      \<and> RPCError msg \<noteq> NotFound)"
  by (simp add: HeaderByNumber_result CallContext_ptr_Inl CallContext_ptr_null)

text \<open>A lookup of block 1000000 at a node without that block, and at a node that is down.\<close>

theorem HeaderByNumber_not_found_witness:
  "node_eth_getBlockByNumber example_env_no_block (toBlockNumArg (Some 1000000)) False = Inr JNull
   \<and> fst (HeaderByNumber example_env_no_block example_client (Some 1000000)) = (None, Some NotFound)
   \<and> node_eth_getBlockByNumber example_env_head_down (toBlockNumArg (Some 1000000)) False
       = Inl ''connection refused''
   \<and> fst (HeaderByNumber example_env_head_down example_client (Some 1000000))
       = (None, Some (RPCError ''connection refused''))
   \<and> RPCError ''connection refused'' \<noteq> NotFound"
proof -
  have a: "node_eth_getBlockByNumber example_env_no_block s b = Inr JNull" for s b
    by (simp add: example_env_no_block_def)
  have b: "node_eth_getBlockByNumber example_env_head_down s b = Inl ''connection refused''" for s b
    by (simp add: example_env_head_down_def)
  show ?thesis
    using HeaderByNumber_not_found [where env = example_env_no_block and number = "Some 1000000"
        and ec = example_client]
      HeaderByNumber_not_found [where env = example_env_head_down and number = "Some 1000000"
        and ec = example_client and msg = "''connection refused''"]
    by (simp add: a b)
qed

text \<open>
  C10. A header lookup that returns no error returns a header; so the nonce lookup, which
  reads the hash, the parent hash and the number of the head after a successful head
  lookup, never panics on an absent header.
\<close>

theorem HeaderByNumber_header_present:
  "(fst (HeaderByNumber env ec number) = (header, None) \<longrightarrow> header \<noteq> None)
   \<and> fst (GetNextAccountNonce env ec account) \<noteq> Panic"
  using HeaderByNumber_nonnil [of env ec number header] GetNextAccountNonce_no_panic [of env ec account]
  by blast

text \<open>The head lookup of the example node returns the example header.\<close>

theorem HeaderByNumber_header_present_witness:
  "fst (HeaderByNumber example_env example_client None) = (Some example_Header, None)
   \<and> Some example_Header \<noteq> None
   \<and> fst (GetNextAccountNonce example_env example_client 9) \<noteq> Panic"
  using HeaderByNumber_header_present [where env = example_env and ec = example_client
      and number = None and header = "Some example_Header" and account = 9]
  by (simp add: example_head)

subsection \<open>The nonce cache\<close>

text \<open>
  C1. Let the head lookup succeed with header \<open>hdr\<close>. If the cache has an entry for the
  account whose recorded block is the hash of \<open>hdr\<close> or its parent hash, the call returns
  the cached nonce plus one (in 64-bit arithmetic) with no error, the entry becomes that
  nonce recorded at the hash of \<open>hdr\<close>, and the head lookup is the only call sent.
  Otherwise, when the node answers the nonce lookup at the number of \<open>hdr\<close> with
  \<open>nonce\<close>, the call sends that lookup after the head lookup, returns \<open>nonce\<close> and stores
  it as the account's entry, recorded at the hash of \<open>hdr\<close>.
\<close>

theorem GetNextAccountNonce_decision:
  assumes "fst (HeaderByNumber env ec None) = (Some hdr, None)"
  shows "(accTxInfoMap ec account = Some (Some info)
          \<and> (PreviousBlock info = Header_Hash env hdr \<or> PreviousBlock info = ParentHash hdr) \<longrightarrow>
          GetNextAccountNonce env ec account =
            (Return (PreviousNonce info + 1, None),
             ec\<lparr>cEth := send (cEth ec) (eth_getBlockByNumber ''latest'' False),
                accTxInfoMap := (accTxInfoMap ec)(account \<mapsto>
                  Some \<lparr>PreviousBlock = Header_Hash env hdr,
                        PreviousNonce = PreviousNonce info + 1\<rparr>)\<rparr>))
       \<and> (\<not> (\<exists>i. accTxInfoMap ec account = Some (Some i)
                 \<and> (PreviousBlock i = Header_Hash env hdr \<or> PreviousBlock i = ParentHash hdr))
          \<and> node_eth_getTransactionCount env account (Number hdr) = (nonce, None) \<longrightarrow>
          GetNextAccountNonce env ec account =
            (Return (nonce, None),
             ec\<lparr>cEth := send (send (cEth ec) (eth_getBlockByNumber ''latest'' False))
                           (eth_getTransactionCount account (Number hdr)),
                accTxInfoMap := (accTxInfoMap ec)(account \<mapsto>
                  Some \<lparr>PreviousBlock = Header_Hash env hdr, PreviousNonce = nonce\<rparr>)\<rparr>))"
proof (intro conjI impI)
  assume "accTxInfoMap ec account = Some (Some info)
    \<and> (PreviousBlock info = Header_Hash env hdr \<or> PreviousBlock info = ParentHash hdr)"
  with assms show "GetNextAccountNonce env ec account =
            (Return (PreviousNonce info + 1, None),
             ec\<lparr>cEth := send (cEth ec) (eth_getBlockByNumber ''latest'' False),
                accTxInfoMap := (accTxInfoMap ec)(account \<mapsto>
                  Some \<lparr>PreviousBlock = Header_Hash env hdr,
                        PreviousNonce = PreviousNonce info + 1\<rparr>)\<rparr>)"
    by (simp add: GetNextAccountNonce_hit)
next
  assume miss: "\<not> (\<exists>i. accTxInfoMap ec account = Some (Some i)
                 \<and> (PreviousBlock i = Header_Hash env hdr \<or> PreviousBlock i = ParentHash hdr))
          \<and> node_eth_getTransactionCount env account (Number hdr) = (nonce, None)"
  then have "\<not> (\<exists>i. accTxInfoMap ec account = Some (Some i)
                 \<and> (PreviousBlock i = Header_Hash env hdr \<or> PreviousBlock i = ParentHash hdr))"
    by blast
  from GetNextAccountNonce_miss [OF assms this] miss
  show "GetNextAccountNonce env ec account =
            (Return (nonce, None),
             ec\<lparr>cEth := send (send (cEth ec) (eth_getBlockByNumber ''latest'' False))
                           (eth_getTransactionCount account (Number hdr)),
                accTxInfoMap := (accTxInfoMap ec)(account \<mapsto>
                  Some \<lparr>PreviousBlock = Header_Hash env hdr, PreviousNonce = nonce\<rparr>)\<rparr>)"
    by simp
qed

text \<open>
  Account 9 with a cached nonce 41 recorded at the parent of the head gets 42 without a
  nonce lookup; with an empty cache it gets the node's answer 5.
\<close>

theorem GetNextAccountNonce_decision_witness:
  "fst (HeaderByNumber example_env example_client_cached None) = (Some example_Header, None)
   \<and> accTxInfoMap example_client_cached 9 = Some (Some \<lparr>PreviousBlock = 0x66, PreviousNonce = 41\<rparr>)
   \<and> ParentHash example_Header = 0x66
   \<and> fst (GetNextAccountNonce example_env example_client_cached 9) = Return (42, None)
   \<and> accTxInfoMap (snd (GetNextAccountNonce example_env example_client_cached 9)) 9
       = Some (Some \<lparr>PreviousBlock = 0x77, PreviousNonce = 42\<rparr>)
   \<and> sent (cEth (snd (GetNextAccountNonce example_env example_client_cached 9)))
       = [(None, eth_getBlockByNumber ''latest'' False)]
   \<and> fst (HeaderByNumber example_env example_client None) = (Some example_Header, None)
   \<and> accTxInfoMap example_client 9 = None
   \<and> node_eth_getTransactionCount example_env 9 (Number example_Header) = (5, None)
   \<and> fst (GetNextAccountNonce example_env example_client 9) = Return (5, None)
   \<and> accTxInfoMap (snd (GetNextAccountNonce example_env example_client 9)) 9
       = Some (Some \<lparr>PreviousBlock = 0x77, PreviousNonce = 5\<rparr>)
   \<and> sent (cEth (snd (GetNextAccountNonce example_env example_client 9)))
       = [(None, eth_getBlockByNumber ''latest'' False),
          (None, eth_getTransactionCount 9 (Some 7))]"
proof -
  have cached: "accTxInfoMap example_client_cached 9
      = Some (Some \<lparr>PreviousBlock = 0x66, PreviousNonce = 41\<rparr>)"
    by (simp add: example_client_cached_def)
  have parent: "ParentHash example_Header = 0x66" "Number example_Header = Some 7"
    by (simp_all add: example_Header_def)
  have empty: "accTxInfoMap example_client 9 = None"
    by (simp add: example_client_def)
  have logs: "sent (cEth example_client_cached) = []" "sent (cEth example_client) = []"
    "Authorization (cEth example_client_cached) = None" "Authorization (cEth example_client) = None"
    by (simp_all add: example_client_cached_def example_client_def)
  from GetNextAccountNonce_decision [OF example_head,
      of example_client_cached 9 "\<lparr>PreviousBlock = 0x66, PreviousNonce = 41\<rparr>"]
  have hit: "GetNextAccountNonce example_env example_client_cached 9 =
      (Return (42, None),
       example_client_cached\<lparr>cEth := send (cEth example_client_cached) (eth_getBlockByNumber ''latest'' False),
          accTxInfoMap := (accTxInfoMap example_client_cached)(9 \<mapsto>
            Some \<lparr>PreviousBlock = 0x77, PreviousNonce = 42\<rparr>)\<rparr>)"
    by (simp add: cached parent example_env_node)
  from GetNextAccountNonce_decision [OF example_head, of example_client 9 _ 5]
  have miss: "GetNextAccountNonce example_env example_client 9 =
      (Return (5, None),
       example_client\<lparr>cEth := send (send (cEth example_client) (eth_getBlockByNumber ''latest'' False))
                           (eth_getTransactionCount 9 (Some 7)),
          accTxInfoMap := (accTxInfoMap example_client)(9 \<mapsto>
            Some \<lparr>PreviousBlock = 0x77, PreviousNonce = 5\<rparr>)\<rparr>)"
    by (simp add: empty parent example_env_node)
  show ?thesis
    by (simp add: hit miss example_head cached parent empty example_env_node send_def logs)
qed

text \<open>
  C4. If the head lookup returns an error, the call returns that error and the cache is
  unchanged. If the head lookup succeeds, the cache has no usable entry for the account,
  and the nonce lookup returns an error, the call returns that error and the cache is
  unchanged.
\<close>

theorem GetNextAccountNonce_failure:
  "(fst (HeaderByNumber env ec None) = (head, Some e) \<longrightarrow>
      fst (GetNextAccountNonce env ec account) = Return (0, Some e)
      \<and> accTxInfoMap (snd (GetNextAccountNonce env ec account)) = accTxInfoMap ec)
   \<and> (fst (HeaderByNumber env ec None) = (Some hdr, None)
      \<and> \<not> (\<exists>i. accTxInfoMap ec account = Some (Some i)
               \<and> (PreviousBlock i = Header_Hash env hdr \<or> PreviousBlock i = ParentHash hdr))
      \<and> fst (NonceAt env (snd (HeaderByNumber env ec None)) account (Number hdr)) = (nonce, Some e2) \<longrightarrow>
      fst (GetNextAccountNonce env ec account) = Return (0, Some e2)
      \<and> accTxInfoMap (snd (GetNextAccountNonce env ec account)) = accTxInfoMap ec)"
proof (intro conjI impI)
  assume h: "fst (HeaderByNumber env ec None) = (head, Some e)"
  from GetNextAccountNonce_head_error [OF h, of account]
  show "fst (GetNextAccountNonce env ec account) = Return (0, Some e)"
    and "accTxInfoMap (snd (GetNextAccountNonce env ec account)) = accTxInfoMap ec"
    by (simp_all add: HeaderByNumber_client)
next
  assume a: "fst (HeaderByNumber env ec None) = (Some hdr, None)
      \<and> \<not> (\<exists>i. accTxInfoMap ec account = Some (Some i)
               \<and> (PreviousBlock i = Header_Hash env hdr \<or> PreviousBlock i = ParentHash hdr))
      \<and> fst (NonceAt env (snd (HeaderByNumber env ec None)) account (Number hdr)) = (nonce, Some e2)"
  then have head: "fst (HeaderByNumber env ec None) = (Some hdr, None)"
    and miss: "\<not> (\<exists>i. accTxInfoMap ec account = Some (Some i)
               \<and> (PreviousBlock i = Header_Hash env hdr \<or> PreviousBlock i = ParentHash hdr))"
    and "fst (NonceAt env (snd (HeaderByNumber env ec None)) account (Number hdr)) = (nonce, Some e2)"
    by blast+
  then obtain msg where node: "node_eth_getTransactionCount env account (Number hdr) = (nonce, Some msg)"
    and e2: "e2 = RPCError msg"
    by (cases "node_eth_getTransactionCount env account (Number hdr)") (auto simp: NonceAt_result)
  from GetNextAccountNonce_miss [OF head miss] node e2
  show "fst (GetNextAccountNonce env ec account) = Return (0, Some e2)"
    and "accTxInfoMap (snd (GetNextAccountNonce env ec account)) = accTxInfoMap ec"
    by simp_all
qed

text \<open>A node whose head lookup fails, and a node whose nonce lookup fails.\<close>

theorem GetNextAccountNonce_failure_witness:
  "fst (HeaderByNumber example_env_head_down example_client_cached None)
     = (None, Some (RPCError ''connection refused''))
   \<and> fst (GetNextAccountNonce example_env_head_down example_client_cached 9)
     = Return (0, Some (RPCError ''connection refused''))
   \<and> accTxInfoMap (snd (GetNextAccountNonce example_env_head_down example_client_cached 9))
     = accTxInfoMap example_client_cached
   \<and> fst (HeaderByNumber example_env_nonce_down example_client None) = (Some example_Header, None)
   \<and> accTxInfoMap example_client 9 = None
   \<and> fst (NonceAt example_env_nonce_down (snd (HeaderByNumber example_env_nonce_down example_client None))
            9 (Number example_Header)) = (0, Some (RPCError ''deadline exceeded''))
   \<and> fst (GetNextAccountNonce example_env_nonce_down example_client 9)
     = Return (0, Some (RPCError ''deadline exceeded''))
   \<and> accTxInfoMap (snd (GetNextAccountNonce example_env_nonce_down example_client 9))
     = accTxInfoMap example_client"
proof -
  have empty: "accTxInfoMap example_client 9 = None"
    by (simp add: example_client_def)
  have nonce: "fst (NonceAt example_env_nonce_down ec1 9 (Number example_Header))
      = (0, Some (RPCError ''deadline exceeded''))" for ec1
    by (simp add: NonceAt_result example_env_nonce_down_def)
  from GetNextAccountNonce_failure
    [where env = example_env_head_down and ec = example_client_cached and head = None
      and e = "RPCError ''connection refused''" and account = 9]
  have one: "fst (GetNextAccountNonce example_env_head_down example_client_cached 9)
       = Return (0, Some (RPCError ''connection refused''))
     \<and> accTxInfoMap (snd (GetNextAccountNonce example_env_head_down example_client_cached 9))
       = accTxInfoMap example_client_cached"
    by (simp add: example_head_down)
  from GetNextAccountNonce_failure
    [where env = example_env_nonce_down and ec = example_client and hdr = example_Header
      and account = 9 and nonce = 0 and ?e2.0 = "RPCError ''deadline exceeded''"]
  have two: "fst (GetNextAccountNonce example_env_nonce_down example_client 9)
       = Return (0, Some (RPCError ''deadline exceeded''))
     \<and> accTxInfoMap (snd (GetNextAccountNonce example_env_nonce_down example_client 9))
       = accTxInfoMap example_client"
    by (simp add: example_head_nonce_down empty nonce)
  show ?thesis
    using one two by (simp add: example_head_down example_head_nonce_down empty nonce)
qed

subsection \<open>Call memory\<close>

text \<open>
  C2. After every forkchoice-update call the accessors return the request of that call
  and the response the node gave to it, whatever error the remote call returned; the same
  holds for every new-payload call. The call is sent in either case.
\<close>

theorem call_memory_overwritten:
  "LatestForkchoiceSent (snd (ForkchoiceUpdatedV1 env ec fcState pAttributes)) = (fcState, pAttributes)
   \<and> LatestForkchoiceResponse (snd (ForkchoiceUpdatedV1 env ec fcState pAttributes))
       = Some (fst (fst (ForkchoiceUpdatedV1 env ec fcState pAttributes)))
   \<and> fst (fst (ForkchoiceUpdatedV1 env ec fcState pAttributes))
       = fst (node_engine_forkchoiceUpdatedV1 env
               (Authorization (c (snd (PrepareDefaultAuthCallToken env ec)))) fcState pAttributes)
   \<and> sent (c (snd (ForkchoiceUpdatedV1 env ec fcState pAttributes)))
       = sent (c ec) @ [(Authorization (c (snd (PrepareDefaultAuthCallToken env ec))),
                         engine_forkchoiceUpdatedV1 fcState pAttributes)]
   \<and> LatestNewPayloadSent (snd (NewPayloadV1 env ec payload)) = payload
   \<and> LatestNewPayloadResponse (snd (NewPayloadV1 env ec payload))
       = Some (fst (fst (NewPayloadV1 env ec payload)))
   \<and> fst (fst (NewPayloadV1 env ec payload))
       = fst (node_engine_newPayloadV1 env
               (Authorization (c (snd (PrepareDefaultAuthCallToken env ec)))) payload)
   \<and> sent (c (snd (NewPayloadV1 env ec payload)))
       = sent (c ec) @ [(Authorization (c (snd (PrepareDefaultAuthCallToken env ec))),
                         engine_newPayloadV1 payload)]"
  by (simp add: ForkchoiceUpdatedV1_unfold NewPayloadV1_unfold Let_def send_def
      LatestForkchoiceSent_def LatestForkchoiceResponse_def LatestNewPayloadSent_def
      LatestNewPayloadResponse_def PrepareDefaultAuthCallToken_transport)

text \<open>
  A forkchoice-update call and a new-payload call against an engine endpoint that does not
  answer in time: the calls return the error, and the memory holds the request and the
  (zero) response of the failed call.
\<close>

theorem call_memory_overwritten_witness:
  "fst (ForkchoiceUpdatedV1 example_env_engine_down example_client (Some example_ForkchoiceStateV1) None)
     = (zero_ForkChoiceResponse, Some (RPCError ''deadline exceeded''))
   \<and> LatestForkchoiceSent
        (snd (ForkchoiceUpdatedV1 example_env_engine_down example_client (Some example_ForkchoiceStateV1) None))
     = (Some example_ForkchoiceStateV1, None)
   \<and> LatestForkchoiceResponse
        (snd (ForkchoiceUpdatedV1 example_env_engine_down example_client (Some example_ForkchoiceStateV1) None))
     = Some zero_ForkChoiceResponse
   \<and> sent (c (snd (ForkchoiceUpdatedV1 example_env_engine_down example_client
                      (Some example_ForkchoiceStateV1) None)))
     = [(Some ''Bearer HS256.iat62590080.123'',
         engine_forkchoiceUpdatedV1 (Some example_ForkchoiceStateV1) None)]
   \<and> fst (NewPayloadV1 example_env_engine_down example_client (Some zero_ExecutableDataV1))
     = (zero_PayloadStatusV1, Some (RPCError ''deadline exceeded''))
   \<and> LatestNewPayloadSent (snd (NewPayloadV1 example_env_engine_down example_client (Some zero_ExecutableDataV1)))
     = Some zero_ExecutableDataV1
   \<and> LatestNewPayloadResponse
        (snd (NewPayloadV1 example_env_engine_down example_client (Some zero_ExecutableDataV1)))
     = Some zero_PayloadStatusV1"
proof -
  have node: "node_engine_forkchoiceUpdatedV1 example_env_engine_down auth f p
      = (zero_ForkChoiceResponse, Some ''deadline exceeded'')"
    "node_engine_newPayloadV1 example_env_engine_down auth pl
      = (zero_PayloadStatusV1, Some ''deadline exceeded'')" for auth f p pl
    by (simp_all add: example_env_engine_down_def)
  have err: "snd (fst (ForkchoiceUpdatedV1 example_env_engine_down example_client
                        (Some example_ForkchoiceStateV1) None)) = Some (RPCError ''deadline exceeded'')"
    "snd (fst (NewPayloadV1 example_env_engine_down example_client (Some zero_ExecutableDataV1)))
       = Some (RPCError ''deadline exceeded'')"
    by (simp_all add: ForkchoiceUpdatedV1_unfold NewPayloadV1_unfold Let_def node)
  have empty: "sent (c example_client) = []"
    by (simp add: example_client_def)
  from call_memory_overwritten [where env = example_env_engine_down and ec = example_client
      and fcState = "Some example_ForkchoiceStateV1" and pAttributes = None
      and payload = "Some zero_ExecutableDataV1"]
  show ?thesis
    using err by (simp add: node example_auth empty prod_eq_iff)
qed

text \<open>
  C9. A get-payload call and an exchange-transition-configuration call leave the five
  fields of the call memory as they were.
\<close>

theorem call_memory_frame:
  "latestFcUStateSent (snd (GetPayloadV1 env ec payloadId)) = latestFcUStateSent ec
   \<and> latestPAttrSent (snd (GetPayloadV1 env ec payloadId)) = latestPAttrSent ec
   \<and> latestFcUResponse (snd (GetPayloadV1 env ec payloadId)) = latestFcUResponse ec
   \<and> latestPayloadSent (snd (GetPayloadV1 env ec payloadId)) = latestPayloadSent ec
   \<and> latestPayloadStatusReponse (snd (GetPayloadV1 env ec payloadId)) = latestPayloadStatusReponse ec
   \<and> latestFcUStateSent (snd (ExchangeTransitionConfigurationV1 env ec tConf)) = latestFcUStateSent ec
   \<and> latestPAttrSent (snd (ExchangeTransitionConfigurationV1 env ec tConf)) = latestPAttrSent ec
   \<and> latestFcUResponse (snd (ExchangeTransitionConfigurationV1 env ec tConf)) = latestFcUResponse ec
   \<and> latestPayloadSent (snd (ExchangeTransitionConfigurationV1 env ec tConf)) = latestPayloadSent ec
   \<and> latestPayloadStatusReponse (snd (ExchangeTransitionConfigurationV1 env ec tConf))
       = latestPayloadStatusReponse ec"
  by (simp add: GetPayloadV1_unfold ExchangeTransitionConfigurationV1_def Let_def
      PrepareDefaultAuthCallToken_memory split: prod.splits)

subsection \<open>Total difficulty\<close>

text \<open>
  C6, as stated, asks that a total-difficulty lookup fail when the header lacks the
  \<^verbatim>\<open>totalDifficulty\<close> field. It does not: the example block is a complete header with
  no member for the field, the header decodes without error, and the lookup returns the
  \<^verbatim>\<open>nil\<close> integer with a \<^verbatim>\<open>nil\<close> error.
\<close>

theorem GetTotalDifficulty_missing_field_counterexample:
  "node_eth_getBlockByNumber example_env ''latest'' False = Inr (JObject example_members)
   \<and> Header_UnmarshalJSON example_env (JObject example_members) zero_Header = (example_Header, None)
   \<and> TD_values example_members = []
   \<and> fst (GetTotalDifficulty example_env example_client) = Return (None, None)"
proof -
  have node: "node_eth_getBlockByNumber example_env ''latest'' False = Inr (JObject example_members)"
    by (simp add: example_env_node example_block_def)
  have dec: "Header_UnmarshalJSON example_env (JObject example_members) zero_Header
      = (example_Header, None)"
    using example_env_decode [of zero_Header] by (simp add: example_block_def)
  from Unmarshal_TD_members_absent [OF example_TD_values(1), of example_env]
    GetTotalDifficulty_decoded [OF node dec, of example_client]
  have "fst (GetTotalDifficulty example_env example_client) = Return (None, None)"
    by simp
  with node dec example_TD_values(1) show ?thesis by blast
qed

text \<open>
  C6, amended. Let the node answer the lookup with a JSON object that decodes as a header
  without error. If the object has no member for the field (no key equal to
  \<^verbatim>\<open>totalDifficulty\<close> up to the case of ASCII letters), the lookup returns the \<^verbatim>\<open>nil\<close>
  integer and no error: only the absent integer tells it from a well-formed answer. If
  the object has members for the field, each of them \<^verbatim>\<open>null\<close> or decoded without error,
  and the last of them is not \<^verbatim>\<open>null\<close> and decodes to \<open>n\<close>, the lookup returns \<open>n\<close> and
  no error.
\<close>

theorem GetTotalDifficulty_result:
  assumes "node_eth_getBlockByNumber env ''latest'' False = Inr (JObject members)"
    and "Header_UnmarshalJSON env (JObject members) zero_Header = (h, None)"
  shows "(TD_values members = [] \<longrightarrow> fst (GetTotalDifficulty env ec) = Return (None, None))
       \<and> (TD_values members \<noteq> []
          \<and> (\<forall>v \<in> set (TD_values members).
                v = JNull \<or> snd (hexutil_Big_UnmarshalJSON env v) = None)
          \<and> last (TD_values members) \<noteq> JNull
          \<and> hexutil_Big_UnmarshalJSON env (last (TD_values members)) = (n, None) \<longrightarrow>
          fst (GetTotalDifficulty env ec) = Return (Some n, None))"
proof (intro conjI impI)
  assume "TD_values members = []"
  from Unmarshal_TD_members_absent [OF this, of env] GetTotalDifficulty_decoded [OF assms, of ec]
  show "fst (GetTotalDifficulty env ec) = Return (None, None)"
    by simp
next
  assume a: "TD_values members \<noteq> []
          \<and> (\<forall>v \<in> set (TD_values members).
                v = JNull \<or> snd (hexutil_Big_UnmarshalJSON env v) = None)
          \<and> last (TD_values members) \<noteq> JNull
          \<and> hexutil_Big_UnmarshalJSON env (last (TD_values members)) = (n, None)"
  note nonempty = a [THEN conjunct1]
  note ok = a [THEN conjunct2, THEN conjunct1]
  note nonnull = a [THEN conjunct2, THEN conjunct2, THEN conjunct1]
  note dec = a [THEN conjunct2, THEN conjunct2, THEN conjunct2]
  from Unmarshal_TD_members_last [OF ok nonempty nonnull dec]
    GetTotalDifficulty_decoded [OF assms, of ec]
  show "fst (GetTotalDifficulty env ec) = Return (Some n, None)"
    by simp
qed

text \<open>
  The example header without the field; with total difficulty 1024 under the key as
  tagged; and with total difficulty 1024 under a capitalised key.
\<close>

theorem GetTotalDifficulty_result_witness:
  "node_eth_getBlockByNumber example_env ''latest'' False = Inr (JObject example_members)
   \<and> Header_UnmarshalJSON example_env (JObject example_members) zero_Header = (example_Header, None)
   \<and> TD_values example_members = []
   \<and> fst (GetTotalDifficulty example_env example_client) = Return (None, None)
   \<and> node_eth_getBlockByNumber example_env_td ''latest'' False
       = Inr (JObject (example_members @ [(''totalDifficulty'', JString ''0x400'')]))
   \<and> Header_UnmarshalJSON example_env_td
         (JObject (example_members @ [(''totalDifficulty'', JString ''0x400'')])) zero_Header
       = (example_Header, None)
   \<and> TD_values (example_members @ [(''totalDifficulty'', JString ''0x400'')]) = [JString ''0x400'']
   \<and> hexutil_Big_UnmarshalJSON example_env_td (JString ''0x400'') = (1024, None)
   \<and> fst (GetTotalDifficulty example_env_td example_client) = Return (Some 1024, None)
   \<and> node_eth_getBlockByNumber example_env_td_caps ''latest'' False
       = Inr (JObject (example_members @ [(''TotalDifficulty'', JString ''0x400'')]))
   \<and> TD_values (example_members @ [(''TotalDifficulty'', JString ''0x400'')]) = [JString ''0x400'']
   \<and> fst (GetTotalDifficulty example_env_td_caps example_client) = Return (Some 1024, None)"
proof -
  let ?td = "example_members @ [(''totalDifficulty'', JString ''0x400'')]"
  let ?caps = "example_members @ [(''TotalDifficulty'', JString ''0x400'')]"
  have node: "node_eth_getBlockByNumber example_env ''latest'' False = Inr (JObject example_members)"
    by (simp add: example_env_node example_block_def)
  have dec: "Header_UnmarshalJSON example_env (JObject example_members) zero_Header
      = (example_Header, None)"
    using example_env_decode [of zero_Header] by (simp add: example_block_def)
  have node_td: "node_eth_getBlockByNumber example_env_td ''latest'' False = Inr (JObject ?td)"
    by (simp add: example_env_td_def example_block_td_def)
  have dec_td: "Header_UnmarshalJSON example_env_td (JObject ?td) zero_Header = (example_Header, None)"
    using example_decode_td [of zero_Header]
    by (simp add: example_env_td_def example_env_def example_block_td_def)
  have big_td: "hexutil_Big_UnmarshalJSON example_env_td v = example_Big_UnmarshalJSON v" for v
    by (simp add: example_env_td_def example_env_def)
  have node_caps: "node_eth_getBlockByNumber example_env_td_caps ''latest'' False = Inr (JObject ?caps)"
    by (simp add: example_env_td_caps_def example_block_td_caps_def)
  have dec_caps: "Header_UnmarshalJSON example_env_td_caps (JObject ?caps) zero_Header
      = (example_Header, None)"
    using example_decode_td_caps [of zero_Header]
    by (simp add: example_env_td_caps_def example_env_def example_block_td_caps_def)
  have big_caps: "hexutil_Big_UnmarshalJSON example_env_td_caps v = example_Big_UnmarshalJSON v" for v
    by (simp add: example_env_td_caps_def example_env_def)
  from GetTotalDifficulty_result [OF node dec, where ec = example_client]
  have one: "fst (GetTotalDifficulty example_env example_client) = Return (None, None)"
    by (simp add: example_TD_values)
  from GetTotalDifficulty_result [OF node_td dec_td, where ec = example_client and n = 1024]
  have two: "fst (GetTotalDifficulty example_env_td example_client) = Return (Some 1024, None)"
    by (simp add: example_TD_values big_td example_big)
  from GetTotalDifficulty_result [OF node_caps dec_caps, where ec = example_client and n = 1024]
  have three: "fst (GetTotalDifficulty example_env_td_caps example_client) = Return (Some 1024, None)"
    by (simp add: example_TD_values big_caps example_big)
  show ?thesis
    using node dec node_td dec_td node_caps one two three
    by (simp add: example_TD_values big_td example_big)
qed

end
